theory Spec2Isabelle
  imports Main "HOL-Library.Sublist"
begin

section \<open>Python strings\<close>

text \<open>
  A Python \<open>str\<close> is a sequence of Unicode code points. A code point is modelled by
  its number, so that the model covers every character Python has (HOL's \<open>char\<close> is
  a byte). String literals of the source are written \<open>str ''...''\<close>.
\<close>

type_synonym pychar = nat
type_synonym pystr = "pychar list"

definition str :: "string \<Rightarrow> pystr" where
  "str s = map of_char s"

definition chr_space :: pychar where
  "chr_space = of_char (CHR '' '')"

definition chr_hyphen :: pychar where
  "chr_hyphen = of_char (CHR ''-'')"

definition chr_underscore :: pychar where
  "chr_underscore = of_char (CHR ''_'')"

definition chr_newline :: pychar where
  "chr_newline = of_char (CHR 0x0A)"

definition chr_slash :: pychar where
  "chr_slash = of_char (CHR ''/'')"

definition chr_quote :: pychar where
  "chr_quote = of_char (CHR 0x27)"

definition chr_return :: pychar where
  "chr_return = of_char (CHR 0x0D)"

text \<open>
  \<open>str.isalnum\<close> reads the interpreter's Unicode character database, which is not part
  of the repository: the functions below take it as the parameter \<open>isalnum\<close>. On ASCII
  it is the predicate \<open>ascii_isalnum\<close> (digits and the letters of both cases), which is
  what the concrete evaluations below use.
\<close>

definition ascii_isalnum :: "pychar \<Rightarrow> bool" where
  "ascii_isalnum c = ((48 \<le> c \<and> c \<le> 57) \<or> (65 \<le> c \<and> c \<le> 90) \<or> (97 \<le> c \<and> c \<le> 122))"

section \<open>youtube\_playlist\_downloader.py: the filename sanitizer\<close>

text \<open>
  \<^verbatim>\<open>return "".join(c if c.isalnum() or c in [" ", "-", "_"] else "_" for c in filename)\<close>

  The generator yields one string of length one per character of \<open>filename\<close>, and
  \<open>"".join\<close> concatenates them.
\<close>

definition create_safe_filename :: "(pychar \<Rightarrow> bool) \<Rightarrow> pystr \<Rightarrow> pystr" where
  "create_safe_filename isalnum filename =
     concat (map (\<lambda>c. if isalnum c \<or> [c] \<in> set [str '' '', str ''-'', str ''_'']
                        then [c] else str ''_'') filename)"

section \<open>Python values, exceptions and log records\<close>

text \<open>
  A download target (\<open>video_info: Dict[str, str]\<close>) is a dictionary from strings to
  strings, kept as an association list read with \<open>map_of\<close>. The other dictionaries of
  the program (metadata, options, progress reports) hold values of several types.
\<close>

type_synonym video_info = "(pystr \<times> pystr) list"

datatype pyval =
    PNone
  | PBool bool
  | PInt int
  | PStr pystr
  | PEntries "video_info option list"

type_synonym pydict = "(pystr \<times> pyval) list"

text \<open>Python's truth value of an object (\<open>if video\<close>, \<open>if total_bytes\<close>, \<open>not playlist_info\<close>).\<close>

fun truthy :: "pyval \<Rightarrow> bool" where
  "truthy PNone = False"
| "truthy (PBool b) = b"
| "truthy (PInt n) = (n \<noteq> 0)"
| "truthy (PStr s) = (s \<noteq> [])"
| "truthy (PEntries vs) = (vs \<noteq> [])"

fun truthy_entry :: "video_info option \<Rightarrow> bool" where
  "truthy_entry None = False"
| "truthy_entry (Some d) = (d \<noteq> [])"

text \<open>
  An exception is classified by the most specific class which the source names in an
  \<open>except\<close> clause (or which the interpreter raises in the modelled code) and of which
  it is an instance; it carries \<open>str(error)\<close> (abbreviated for the exceptions that
  the interpreter raises). In yt-dlp, \<open>DownloadError\<close> and
  \<open>ExtractorError\<close> are both subclasses of \<open>YoutubeDLError\<close>, and neither is a
  subclass of the other. \<open>YoutubeDLError\<close> below stands for an instance of that class
  which is neither a \<open>DownloadError\<close> nor an \<open>ExtractorError\<close>.
\<close>

datatype exc_class =
    DownloadError
  | ExtractorError
  | YoutubeDLError
  | KeyError
  | TypeError
  | ValueError
  | ZeroDivisionError
  | OverflowError
  | OSError
  | AttributeError
  | OtherException

datatype exc = Exc exc_class pystr

fun exc_str :: "exc \<Rightarrow> pystr" where
  "exc_str (Exc c m) = m"

text \<open>\<open>isinstance e k\<close>: would \<open>except k\<close> catch \<open>e\<close>.\<close>

fun isinstance :: "exc \<Rightarrow> exc_class \<Rightarrow> bool" where
  "isinstance (Exc c m) k =
     (c = k \<or> (k = YoutubeDLError \<and> (c = DownloadError \<or> c = ExtractorError)))"

text \<open>The result of a call of the external library: it returns a value or raises.\<close>

datatype 'a outcome = Returns 'a | Raises exc

text \<open>
  A log record is kept as the logger receives it: the level, the format string and the
  arguments.
\<close>

datatype log_level = INFO | WARNING | ERROR

datatype log_record = Log log_level pystr "pyval list"

section \<open>youtube\_playlist\_downloader.py: configuration and paths\<close>

record DownloadConfig =
  max_retries :: int
  max_workers :: int
  video_format :: pystr
  output_template :: pystr

definition config :: DownloadConfig where
  "config = \<lparr> max_retries = 5, max_workers = 4,
     video_format = str ''bestvideo[ext=mp4]+bestaudio[ext=m4a]/best[ext=mp4]/best'',
     output_template = str ''%(title)s.%(ext)s'' \<rparr>"

text \<open>
  \<open>os.path.join\<close> and \<open>os.path.basename\<close> of the standard library, on a POSIX system
  (\<open>posixpath\<close>): a second component that starts with a slash replaces the first; the
  base name is what follows the last slash.
\<close>

definition path_join :: "pystr \<Rightarrow> pystr \<Rightarrow> pystr" where
  "path_join a b =
     (if b \<noteq> [] \<and> hd b = chr_slash then b
      else if a = [] \<or> last a = chr_slash then a @ b
      else a @ [chr_slash] @ b)"

definition basename :: "pystr \<Rightarrow> pystr" where
  "basename p = rev (takeWhile (\<lambda>c. c \<noteq> chr_slash) (rev p))"

section \<open>youtube\_playlist\_downloader.py: the single-item downloader\<close>

text \<open>
  \<open>ydl.download\<close> is a call of the external library. Its behaviour is the parameter
  \<open>dl\<close>: the outcome of the invocation made in attempt number \<open>n\<close> (counted from 0)
  with the given options and list of URLs. The effects of \<open>download_video\<close> are the
  log records it writes and the invocations of \<open>ydl.download\<close> it makes, in order.
\<close>

type_synonym downloader = "nat \<Rightarrow> pydict \<Rightarrow> pystr list \<Rightarrow> unit outcome"

type_synonym ydl_call = "pydict \<times> pystr list"

definition title_of :: "video_info \<Rightarrow> pystr" where
  "title_of video_info =
     (case map_of video_info (str ''title'') of
        None \<Rightarrow> str ''Unknown video''
      | Some t \<Rightarrow> t)"

definition download_opts :: "DownloadConfig \<Rightarrow> pystr \<Rightarrow> pydict" where
  "download_opts cfg output_path =
     [(str ''format'', PStr (video_format cfg)),
      (str ''outtmpl'', PStr (path_join output_path (output_template cfg))),
      (str ''quiet'', PBool True),
      (str ''no_warnings'', PBool True)]"

text \<open>
  The loop \<open>for attempt in range(config.max_retries)\<close>, by recursion on the attempt
  numbers still to run. In one attempt the \<open>'id'\<close> key is read first (a missing key
  raises \<open>KeyError\<close> inside the \<open>try\<close>), then \<open>ydl.download\<close> is called; only
  \<open>yt_dlp.DownloadError\<close> is caught.
\<close>

fun retry_loop ::
  "DownloadConfig \<Rightarrow> downloader \<Rightarrow> pydict \<Rightarrow> video_info \<Rightarrow> nat list \<Rightarrow>
   log_record list \<times> ydl_call list \<Rightarrow> (log_record list \<times> ydl_call list) \<times> (exc + bool)"
where
  "retry_loop cfg dl ydl_opts video_info [] (logs, calls) =
     ((logs @ [Log ERROR (str ''Failed to download %s after %d attempts'')
                 [PStr (title_of video_info), PInt (max_retries cfg)]], calls),
      Inr False)"
| "retry_loop cfg dl ydl_opts video_info (attempt # rest) (logs, calls) =
     (case map_of video_info (str ''id'') of
        None \<Rightarrow> ((logs, calls), Inl (Exc KeyError (chr_quote # str ''id'' @ [chr_quote])))
      | Some vid \<Rightarrow>
          (let video_url = str ''https://www.youtube.com/watch?v='' @ vid in
           case dl attempt ydl_opts [video_url] of
             Returns u \<Rightarrow> ((logs, calls @ [(ydl_opts, [video_url])]), Inr True)
           | Raises error \<Rightarrow>
               if isinstance error DownloadError
               then retry_loop cfg dl ydl_opts video_info rest
                      (logs @ [Log WARNING (str ''Attempt %d failed for %s: %s'')
                                 [PInt (int attempt + 1), PStr (title_of video_info),
                                  PStr (exc_str error)]],
                       calls @ [(ydl_opts, [video_url])])
               else ((logs, calls @ [(ydl_opts, [video_url])]), Inl error)))"

definition download_video ::
  "DownloadConfig \<Rightarrow> downloader \<Rightarrow> video_info \<Rightarrow> pystr \<Rightarrow>
   (log_record list \<times> ydl_call list) \<times> (exc + bool)"
where
  "download_video cfg dl video_info output_path =
     retry_loop cfg dl (download_opts cfg output_path) video_info
       [0..<nat (max_retries cfg)] ([], [])"

section \<open>The metadata fetchers of both programs\<close>

text \<open>
  \<open>ydl.extract_info(url, download=False)\<close> is a call of the external library; its
  behaviour is the parameter \<open>extract_info\<close>, from the options, the URL and the
  \<open>download\<close> flag to the outcome: the metadata (a dictionary, or \<open>None\<close>) or an
  exception. A fetcher returns the log records it wrote and its result.
\<close>

type_synonym extractor = "pydict \<Rightarrow> pystr \<Rightarrow> bool \<Rightarrow> pydict option outcome"

definition playlist_opts :: pydict where
  "playlist_opts =
     [(str ''quiet'', PBool True),
      (str ''no_warnings'', PBool True),
      (str ''extract_flat'', PStr (str ''in_playlist'')),
      (str ''force_generic_extractor'', PBool True)]"

text \<open>
  youtube\_playlist\_downloader.py: \<open>except ExtractorError\<close>, then
  \<open>except YoutubeDLError\<close>; after either, \<open>return None\<close>.
\<close>

definition get_playlist_info ::
  "extractor \<Rightarrow> pystr \<Rightarrow> log_record list \<times> (exc + pydict option)"
where
  "get_playlist_info extract_info playlist_url =
     (case extract_info playlist_opts playlist_url False of
        Returns info \<Rightarrow> ([], Inr info)
      | Raises error \<Rightarrow>
          if isinstance error ExtractorError
          then ([Log ERROR (str ''Failed to extract playlist information: %s'')
                   [PStr (exc_str error)]], Inr None)
          else if isinstance error YoutubeDLError
          then ([Log ERROR (str ''A YouTube-DL error occurred: %s'')
                   [PStr (exc_str error)]], Inr None)
          else ([], Inl error))"

definition video_opts :: pydict where
  "video_opts = [(str ''quiet'', PBool True), (str ''no_warnings'', PBool True)]"

text \<open>
  youtube\_video\_downloader.py:
  \<open>except (yt_dlp.DownloadError, yt_dlp.utils.ExtractorError)\<close>.
\<close>

definition get_video_info ::
  "extractor \<Rightarrow> pystr \<Rightarrow> log_record list \<times> (exc + pydict option)"
where
  "get_video_info extract_info url =
     (case extract_info video_opts url False of
        Returns info \<Rightarrow> ([], Inr info)
      | Raises e \<Rightarrow>
          if isinstance e DownloadError \<or> isinstance e ExtractorError
          then ([Log ERROR (str ''Error retrieving video information: %s'')
                   [PStr (exc_str e)]], Inr None)
          else ([], Inl e))"

section \<open>youtube\_playlist\_downloader.py: the batch orchestrator\<close>

text \<open>
  \<open>for video in videos\<close> iterates over whatever object \<open>videos\<close> is. What the loop
  variable can hold is a \<open>video\<close>: an entry of a list (\<open>None\<close> or a dictionary), or,
  when \<open>videos\<close> is a string, one of its characters. An object that cannot be
  iterated raises \<open>TypeError\<close>.
\<close>

datatype video = VNone | VDict video_info | VStr pystr

fun truthy_video :: "video \<Rightarrow> bool" where
  "truthy_video VNone = False"
| "truthy_video (VDict d) = (d \<noteq> [])"
| "truthy_video (VStr s) = (s \<noteq> [])"

fun iter_videos :: "pyval \<Rightarrow> exc + video list" where
  "iter_videos (PEntries vs) = Inr (map (case_option VNone VDict) vs)"
| "iter_videos (PStr s) = Inr (map (\<lambda>c. VStr [c]) s)"
| "iter_videos v = Inl (Exc TypeError (str ''object is not iterable''))"

fun entry_of_video :: "video \<Rightarrow> video_info option" where
  "entry_of_video (VDict d) = Some d"
| "entry_of_video v = None"

text \<open>
  \<open>download_videos\<close> submits one task \<open>download_video(video, output_path)\<close> to the
  thread pool for every truthy element, in the order of the iteration. Leaving the
  \<open>with\<close> block waits for every submitted task, so each of them runs once, whatever
  the others do. The tasks run concurrently: the model keeps the effects of each task
  apart (\<open>task_run\<close>, in submission order) and does not interleave them. The external
  downloader of task number \<open>i\<close> is \<open>dls i\<close>.

  A task on a dictionary is a run of \<open>download_video\<close>. For a video that is no
  dictionary, \<open>video_info['id']\<close> raises \<open>TypeError\<close> in the first attempt; when
  there is no attempt, \<open>video_info.get\<close> raises \<open>AttributeError\<close> before anything is
  logged.

  The results are inspected in completion order, and the first exception met is
  re-raised by \<open>future.result()\<close>. The completion order is not determined by the
  program; it is the parameter \<open>completion\<close>, the task numbers in the order in which
  they complete. The constructor of the pool raises \<open>ValueError\<close> when
  \<open>max_workers\<close> is not positive.
\<close>

record task_run =
  task_video :: video
  task_output_path :: pystr
  task_logs :: "log_record list"
  task_calls :: "ydl_call list"
  task_result :: "exc + bool"

record batch =
  tasks :: "task_run list"
  progress_total :: nat
  batch_result :: "exc + unit"

definition run_task ::
  "DownloadConfig \<Rightarrow> downloader \<Rightarrow> video \<Rightarrow> pystr \<Rightarrow> task_run"
where
  "run_task cfg dl video output_path =
     (case video of
        VDict video_info \<Rightarrow>
          (let r = download_video cfg dl video_info output_path in
           \<lparr> task_video = video, task_output_path = output_path,
             task_logs = fst (fst r), task_calls = snd (fst r), task_result = snd r \<rparr>)
      | other \<Rightarrow>
          \<lparr> task_video = video, task_output_path = output_path,
            task_logs = [], task_calls = [],
            task_result =
              (if 0 < max_retries cfg
               then Inl (Exc TypeError (str ''indices must be integers''))
               else Inl (Exc AttributeError (str ''object has no attribute get''))) \<rparr>)"

fun first_raised :: "(exc + bool) list \<Rightarrow> exc + unit" where
  "first_raised [] = Inr ()"
| "first_raised (Inl e # rs) = Inl e"
| "first_raised (Inr b # rs) = first_raised rs"

definition download_videos ::
  "DownloadConfig \<Rightarrow> (nat \<Rightarrow> downloader) \<Rightarrow> nat list \<Rightarrow> pyval \<Rightarrow> pystr \<Rightarrow> batch"
where
  "download_videos cfg dls completion videos output_path =
     (if max_workers cfg \<le> 0
      then \<lparr> tasks = [], progress_total = 0,
             batch_result = Inl (Exc ValueError (str ''max_workers must be greater than 0'')) \<rparr>
      else
        (case iter_videos videos of
           Inl e \<Rightarrow> \<lparr> tasks = [], progress_total = 0, batch_result = Inl e \<rparr>
         | Inr vs \<Rightarrow>
            (let submitted = filter truthy_video vs;
                 futures = map (\<lambda>(i, video). run_task cfg (dls i) video output_path)
                             (zip [0..<length submitted] submitted)
             in \<lparr> tasks = futures, progress_total = length futures,
                  batch_result =
                    first_raised (map (\<lambda>i. task_result (futures ! i))
                                    (filter (\<lambda>i. i < length futures) completion)) \<rparr>)))"

section \<open>youtube\_playlist\_downloader.py: the collection-level flow\<close>

text \<open>
  \<open>create_safe_filename(playlist_title)\<close> on whatever value the \<open>'title'\<close> key holds:
  the generator iterates over the value and calls \<open>isalnum\<close> on each element. A string
  is sanitized; an empty list yields the empty string; the first element of a list that
  is not empty has no \<open>isalnum\<close>; any other value cannot be iterated.
\<close>

fun create_safe_filename_of :: "(pychar \<Rightarrow> bool) \<Rightarrow> pyval \<Rightarrow> exc + pystr" where
  "create_safe_filename_of isalnum (PStr filename) = Inr (create_safe_filename isalnum filename)"
| "create_safe_filename_of isalnum (PEntries []) = Inr []"
| "create_safe_filename_of isalnum (PEntries (x # xs)) =
     Inl (Exc AttributeError (str ''object has no attribute isalnum''))"
| "create_safe_filename_of isalnum v = Inl (Exc TypeError (str ''object is not iterable''))"

text \<open>
  \<open>os.makedirs(playlist_path, exist_ok=True)\<close> is a call of the operating system; its
  behaviour is the parameter \<open>makedirs\<close>. The effects of \<open>download_playlist\<close> are the
  log records of the main thread, the directories it asked to create, and the batch it
  ran (if any).
\<close>

record playlist_run =
  pl_logs :: "log_record list"
  pl_makedirs :: "pystr list"
  pl_batch :: "batch option"
  pl_result :: "exc + unit"

definition download_playlist ::
  "DownloadConfig \<Rightarrow> (pychar \<Rightarrow> bool) \<Rightarrow> extractor \<Rightarrow> (pystr \<Rightarrow> unit outcome) \<Rightarrow>
   (nat \<Rightarrow> downloader) \<Rightarrow> nat list \<Rightarrow> pystr \<Rightarrow> pystr \<Rightarrow> playlist_run"
where
  "download_playlist cfg isalnum extract_info makedirs dls completion playlist_url storage_location =
     (case get_playlist_info extract_info playlist_url of
        (logs, Inl e) \<Rightarrow>
          \<lparr> pl_logs = logs, pl_makedirs = [], pl_batch = None, pl_result = Inl e \<rparr>
      | (logs, Inr playlist_info) \<Rightarrow>
          if playlist_info = None \<or> playlist_info = Some []
          then \<lparr> pl_logs = logs @ [Log ERROR (str ''Failed to retrieve playlist information.'') []],
                 pl_makedirs = [], pl_batch = None, pl_result = Inr () \<rparr>
          else
          (case map_of (case_option [] id playlist_info) (str ''entries'') of
             None \<Rightarrow>
               \<lparr> pl_logs = logs @ [Log ERROR (str ''No videos found in the playlist.'') []],
                 pl_makedirs = [], pl_batch = None, pl_result = Inr () \<rparr>
           | Some entries \<Rightarrow>
            (let playlist_title =
                   (case map_of (case_option [] id playlist_info) (str ''title'') of
                      None \<Rightarrow> PStr (str ''Untitled Playlist'')
                    | Some v \<Rightarrow> v)
             in case create_safe_filename_of isalnum playlist_title of
               Inl e \<Rightarrow>
                 \<lparr> pl_logs = logs, pl_makedirs = [], pl_batch = None, pl_result = Inl e \<rparr>
             | Inr safe_playlist_title \<Rightarrow>
                 (let playlist_path = path_join storage_location safe_playlist_title
                  in case makedirs playlist_path of
                       Raises error \<Rightarrow>
                         if isinstance error OSError
                         then \<lparr> pl_logs = logs @ [Log ERROR (str ''Failed to create directory %s: %s'')
                                                     [PStr playlist_path, PStr (exc_str error)]],
                                pl_makedirs = [playlist_path], pl_batch = None, pl_result = Inr () \<rparr>
                         else \<lparr> pl_logs = logs, pl_makedirs = [playlist_path], pl_batch = None,
                                pl_result = Inl error \<rparr>
                     | Returns u \<Rightarrow>
                         (let logs1 = logs @ [Log INFO (str ''Downloading playlist: %s'')
                                                [playlist_title]];
                              b = download_videos cfg dls completion entries playlist_path
                          in case batch_result b of
                               Inl e \<Rightarrow>
                                 \<lparr> pl_logs = logs1, pl_makedirs = [playlist_path],
                                   pl_batch = Some b, pl_result = Inl e \<rparr>
                             | Inr u \<Rightarrow>
                                 \<lparr> pl_logs = logs1 @ [Log INFO (str ''Playlist download complete!'') []],
                                   pl_makedirs = [playlist_path], pl_batch = Some b,
                                   pl_result = Inr () \<rparr>)))))"

section \<open>youtube\_video\_downloader.py: the URL validator\<close>

text \<open>
  The pattern of \<open>validate_url\<close> is a regular expression of Python's \<open>re\<close> module.
  The constructors below are the operators it uses: \<open>^\<close>, a literal character,
  \<open>.\<close> (any character except a newline, as no flag is given), concatenation,
  \<open>|\<close>, \<open>?\<close> and \<open>+\<close>.
\<close>

datatype regex =
    Eps
  | Caret
  | Lit pychar
  | Dot
  | Seq regex regex
  | Alt regex regex
  | Opt regex
  | Plus regex

text \<open>
  A backtracking matcher. A state is the text still to read, with a flag that tells
  whether the position is the start of the string. \<open>rmatch r st\<close> lists the states
  in which a match of \<open>r\<close> that starts in \<open>st\<close> can end, in the order in which a
  backtracking engine with greedy operators tries them. A repetition runs at most once
  more than there are characters left.
\<close>

fun plus_iter ::
  "(bool \<times> pystr \<Rightarrow> (bool \<times> pystr) list) \<Rightarrow> nat \<Rightarrow> bool \<times> pystr \<Rightarrow> (bool \<times> pystr) list"
where
  "plus_iter step 0 st = []"
| "plus_iter step (Suc n) st = concat (map (\<lambda>st'. plus_iter step n st' @ [st']) (step st))"

fun rmatch :: "regex \<Rightarrow> bool \<times> pystr \<Rightarrow> (bool \<times> pystr) list" where
  "rmatch Eps st = [st]"
| "rmatch Caret (at_start, s) = (if at_start then [(at_start, s)] else [])"
| "rmatch (Lit c) (at_start, s) =
     (case s of [] \<Rightarrow> [] | x # xs \<Rightarrow> if x = c then [(False, xs)] else [])"
| "rmatch Dot (at_start, s) =
     (case s of [] \<Rightarrow> [] | x # xs \<Rightarrow> if x \<noteq> chr_newline then [(False, xs)] else [])"
| "rmatch (Seq r1 r2) st = concat (map (rmatch r2) (rmatch r1 st))"
| "rmatch (Alt r1 r2) st = rmatch r1 st @ rmatch r2 st"
| "rmatch (Opt r) st = rmatch r st @ [st]"
| "rmatch (Plus r) st = plus_iter (rmatch r) (Suc (length (snd st))) st"

text \<open>\<open>re.match(pattern, string)\<close>: a match that starts at the start of the string, or \<open>None\<close>.\<close>

definition re_match :: "regex \<Rightarrow> pystr \<Rightarrow> (bool \<times> pystr) option" where
  "re_match pattern string =
     (case rmatch pattern (True, string) of [] \<Rightarrow> None | m # ms \<Rightarrow> Some m)"

text \<open>A run of literal characters of a pattern.\<close>

definition lits :: "string \<Rightarrow> regex" where
  "lits w = foldr (\<lambda>c r. Seq (Lit (of_char c)) r) w Eps"

text \<open>\<^verbatim>\<open>youtube_regex = r"^(https?://)?(www\.)?(youtube\.com|youtu\.be)/.+"\<close>\<close>

definition youtube_regex :: regex where
  "youtube_regex =
     Seq Caret
    (Seq (Opt (Seq (lits ''http'') (Seq (Opt (lits ''s'')) (lits ''://''))))
    (Seq (Opt (lits ''www.''))
    (Seq (Alt (lits ''youtube.com'') (lits ''youtu.be''))
    (Seq (lits ''/'')
         (Plus Dot)))))"

definition validate_url :: "pystr \<Rightarrow> bool" where
  "validate_url url = (re_match youtube_regex url \<noteq> None)"

section \<open>youtube\_video\_downloader.py: the progress reporter\<close>

text \<open>
  \<open>progress = (downloaded_bytes / total_bytes) * 100\<close> is computed in binary floating
  point (IEEE 754 double precision, rounding to nearest, ties to even) and printed with
  \<open>{progress:.1f}\<close>. A float is modelled exactly, by integers: \<open>Finite s m e\<close> is the
  number \<open>m * 2 ^ e\<close>, negative when \<open>s\<close> holds (so that there is a negative zero),
  and \<open>Infinity s\<close> is an infinity. The byte counts of the dictionary are integers (a
  \<open>bool\<close> counts as 0 or 1, as in Python).
\<close>

datatype pyfloat = Finite bool nat int | Infinity bool

text \<open>\<open>int.bit_length\<close>: the number of binary digits.\<close>

fun bit_length :: "nat \<Rightarrow> nat" where
  "bit_length n = (if n = 0 then 0 else Suc (bit_length (n div 2)))"

declare bit_length.simps [simp del]

text \<open>The integer nearest to \<open>a / b\<close>, the even one of two that are equally near.\<close>

definition round_half_even :: "nat \<Rightarrow> nat \<Rightarrow> nat" where
  "round_half_even a b =
     (let q = a div b; r = a mod b
      in if 2 * r < b then q
         else if b < 2 * r then q + 1
         else if even q then q else q + 1)"

text \<open>
  The double nearest to the quotient \<open>a / b\<close> of two natural numbers (\<open>b\<close> positive),
  as significand and exponent. \<open>f\<close> is the exponent of the leading binary digit of the
  quotient; a double keeps 53 digits from there, and no digit below \<open>2 ^ -1074\<close>.
\<close>

definition round_div :: "nat \<Rightarrow> nat \<Rightarrow> nat \<times> int" where
  "round_div a b =
     (if a = 0 then (0, 0)
      else
        (let k = int (bit_length a) - int (bit_length b);
             f = (if (if 0 \<le> k then b * 2 ^ nat k \<le> a else b \<le> a * 2 ^ nat (- k))
                  then k else k - 1);
             e = max (f - 52) (- 1074);
             m = (if 0 \<le> e then round_half_even a (b * 2 ^ nat e)
                  else round_half_even (a * 2 ^ nat (- e)) b)
         in (m, e)))"

text \<open>A rounded result that is \<open>2 ^ 1024\<close> or more is beyond the largest double.\<close>

definition too_large :: "nat \<times> int \<Rightarrow> bool" where
  "too_large x = (0 < snd x \<and> 2 ^ 1024 \<le> fst x * 2 ^ nat (snd x))"

text \<open>
  \<open>a / b\<close> for integers, \<open>b\<close> not zero: the quotient correctly rounded, or
  \<open>OverflowError\<close> when it is too large for a float.
\<close>

definition truediv :: "int \<Rightarrow> int \<Rightarrow> exc + pyfloat" where
  "truediv a b =
     (let x = round_div (nat \<bar>a\<bar>) (nat \<bar>b\<bar>)
      in if too_large x
         then Inl (Exc OverflowError (str ''integer division result too large for a float''))
         else Inr (Finite ((a < 0) \<noteq> (b < 0)) (fst x) (snd x)))"

text \<open>\<open>x * 100\<close> for a float \<open>x\<close>: the product correctly rounded; it overflows to an infinity.\<close>

fun mul_100 :: "pyfloat \<Rightarrow> pyfloat" where
  "mul_100 (Infinity s) = Infinity s"
| "mul_100 (Finite s m e) =
     (let x = (if 0 \<le> e then round_div (m * 100 * 2 ^ nat e) 1
               else round_div (m * 100) (2 ^ nat (- e)))
      in if too_large x then Infinity s else Finite s (fst x) (snd x))"

text \<open>The decimal digits of a natural number.\<close>

fun decimal :: "nat \<Rightarrow> pystr" where
  "decimal n = (if n < 10 then [48 + n] else decimal (n div 10) @ [48 + n mod 10])"

declare decimal.simps [simp del]

text \<open>
  \<open>f"{x:.1f}"\<close>: the value of the float rounded to tenths (the exact value decides, ties
  to even), with its sign.
\<close>

fun format_1f :: "pyfloat \<Rightarrow> pystr" where
  "format_1f (Infinity s) = (if s then str ''-inf'' else str ''inf'')"
| "format_1f (Finite s m e) =
     (let tenths = (if 0 \<le> e then m * 10 * 2 ^ nat e
                    else round_half_even (m * 10) (2 ^ nat (- e)))
      in (if s then str ''-'' else []) @ decimal (tenths div 10) @ str ''.'' @
         decimal (tenths mod 10))"

fun number_of :: "pyval \<Rightarrow> int option" where
  "number_of (PInt n) = Some n"
| "number_of (PBool b) = Some (if b then 1 else 0)"
| "number_of v = None"

definition py_truediv :: "pyval \<Rightarrow> pyval \<Rightarrow> exc + pyfloat" where
  "py_truediv a b =
     (case (number_of a, number_of b) of
        (Some x, Some y) \<Rightarrow>
          if y = 0 then Inl (Exc ZeroDivisionError (str ''division by zero''))
          else truediv x y
      | _ \<Rightarrow> Inl (Exc TypeError (str ''unsupported operand type(s) for /'')))"

text \<open>\<open>os.path.basename(d["filename"])\<close>: a missing key raises, and so does a value that is no path.\<close>

definition basename_of_filename :: "pydict \<Rightarrow> exc + pystr" where
  "basename_of_filename d =
     (case map_of d (str ''filename'') of
        None \<Rightarrow> Inl (Exc KeyError (chr_quote # str ''filename'' @ [chr_quote]))
      | Some (PStr p) \<Rightarrow> Inr (basename p)
      | Some v \<Rightarrow> Inl (Exc TypeError (str ''expected str, bytes or os.PathLike object'')))"

text \<open>
  What \<open>progress_hook\<close> emits is the list of its calls of \<open>tqdm.write\<close>, each with the
  message and the \<open>end\<close> argument (\<open>"\n"\<close> when none is given).
\<close>

datatype tqdm_write = TqdmWrite pystr pystr

definition progress_hook :: "pydict \<Rightarrow> exc + tqdm_write list" where
  "progress_hook d =
     (case map_of d (str ''status'') of
        None \<Rightarrow> Inl (Exc KeyError (chr_quote # str ''status'' @ [chr_quote]))
      | Some status \<Rightarrow>
          if status = PStr (str ''downloading'') then
            (let total_bytes = (case map_of d (str ''total_bytes'') of None \<Rightarrow> PNone | Some v \<Rightarrow> v);
                 downloaded_bytes = (case map_of d (str ''downloaded_bytes'') of
                                       None \<Rightarrow> PInt 0 | Some v \<Rightarrow> v)
             in if truthy total_bytes then
                  (case py_truediv downloaded_bytes total_bytes of
                     Inl e \<Rightarrow> Inl e
                   | Inr q \<Rightarrow>
                       (let progress = mul_100 q in
                        case basename_of_filename d of
                          Inl e \<Rightarrow> Inl e
                        | Inr filename \<Rightarrow>
                            Inr [TqdmWrite (str ''Downloading '' @ filename @ str '': '' @
                                            format_1f progress @ str ''%'')
                                   [chr_return]]))
                else Inr [])
          else if status = PStr (str ''finished'') then
            (case basename_of_filename d of
               Inl e \<Rightarrow> Inl e
             | Inr filename \<Rightarrow>
                 Inr [TqdmWrite (chr_newline # str ''Finished downloading '' @ filename)
                        [chr_newline]])
          else Inr [])"

section \<open>Properties of the filename sanitizer\<close>

lemma str_single_chars:
  "str '' '' = [chr_space]" "str ''-'' = [chr_hyphen]" "str ''_'' = [chr_underscore]"
  by (simp_all add: str_def chr_space_def chr_hyphen_def chr_underscore_def)

lemma create_safe_filename_map:
  "create_safe_filename isalnum s =
     map (\<lambda>c. if isalnum c \<or> c = chr_space \<or> c = chr_hyphen \<or> c = chr_underscore
               then c else chr_underscore) s"
  by (induction s) (auto simp: create_safe_filename_def str_single_chars)

text \<open>
  Claim C7. The sanitizer returns a string of the same length as its input; at every
  position, a character that is alphanumeric, a space, a hyphen or an underscore is
  kept and any other character is replaced by an underscore; hence every character of
  the output is alphanumeric, a space, a hyphen or an underscore.
\<close>

theorem create_safe_filename_charwise:
  "length (create_safe_filename isalnum s) = length s \<and>
   (\<forall>i<length s.
      create_safe_filename isalnum s ! i =
        (if isalnum (s ! i) \<or> s ! i = chr_space \<or> s ! i = chr_hyphen \<or> s ! i = chr_underscore
         then s ! i else chr_underscore)) \<and>
   (\<forall>c\<in>set (create_safe_filename isalnum s).
      isalnum c \<or> c = chr_space \<or> c = chr_hyphen \<or> c = chr_underscore)"
  by (auto simp: create_safe_filename_map)

theorem create_safe_filename_charwise_witness:
  "length (create_safe_filename ascii_isalnum (str ''Test/Playlist'')) = 13 \<and>
   create_safe_filename ascii_isalnum (str ''Test/Playlist'') ! 3 = of_char (CHR ''t'') \<and>
   create_safe_filename ascii_isalnum (str ''Test/Playlist'') ! 4 = chr_underscore \<and>
   create_safe_filename ascii_isalnum (str ''Test/Playlist'') = str ''Test_Playlist''"
  using create_safe_filename_charwise [of ascii_isalnum "str ''Test/Playlist''"]
  by (simp add: create_safe_filename_map str_def ascii_isalnum_def chr_space_def
      chr_hyphen_def chr_underscore_def)

text \<open>
  Claim C9. The sanitizer is idempotent: sanitizing a sanitized name changes nothing,
  since every character it produces is one it keeps.
\<close>

theorem create_safe_filename_idempotent:
  "create_safe_filename isalnum (create_safe_filename isalnum s) =
   create_safe_filename isalnum s"
  by (simp add: create_safe_filename_map)

section \<open>Properties of the single-item downloader\<close>

lemma retry_loop_prefix:
  assumes "map_of video_info (str ''id'') = Some vid"
    and "\<forall>n\<in>set ns. dl n ydl_opts [str ''https://www.youtube.com/watch?v='' @ vid] = Raises (err n)
                     \<and> isinstance (err n) DownloadError"
  shows "retry_loop cfg dl ydl_opts video_info (ns @ rest) (logs, calls) =
     retry_loop cfg dl ydl_opts video_info rest
       (logs @ map (\<lambda>n. Log WARNING (str ''Attempt %d failed for %s: %s'')
                      [PInt (int n + 1), PStr (title_of video_info), PStr (exc_str (err n))]) ns,
        calls @ map (\<lambda>n. (ydl_opts, [str ''https://www.youtube.com/watch?v='' @ vid])) ns)"
  using assms
  by (induction ns arbitrary: logs calls) (simp_all add: Let_def)

lemma download_video_after_failures:
  assumes "map_of video_info (str ''id'') = Some vid"
    and "k \<le> nat (max_retries cfg)"
    and "\<forall>n<k. dl n (download_opts cfg output_path) [str ''https://www.youtube.com/watch?v='' @ vid]
                  = Raises (err n) \<and> isinstance (err n) DownloadError"
  shows "download_video cfg dl video_info output_path =
     retry_loop cfg dl (download_opts cfg output_path) video_info [k..<nat (max_retries cfg)]
       (map (\<lambda>n. Log WARNING (str ''Attempt %d failed for %s: %s'')
                      [PInt (int n + 1), PStr (title_of video_info), PStr (exc_str (err n))]) [0..<k],
        replicate k (download_opts cfg output_path, [str ''https://www.youtube.com/watch?v='' @ vid]))"
proof -
  have "[0..<nat (max_retries cfg)] = [0..<k] @ [k..<nat (max_retries cfg)]"
    using assms(2) by (metis le_add_diff_inverse upt_add_eq_append zero_le)
  then show ?thesis
    using retry_loop_prefix [OF assms(1), of "[0..<k]" dl "download_opts cfg output_path" err cfg
        "[k..<nat (max_retries cfg)]" "[]" "[]"] assms(3)
    by (simp add: download_video_def map_replicate_const)
qed

text \<open>
  Claim C1. Let the download target have an identifier (the \<open>'id'\<close> key; a
  dictionary without it is the subject of claim C10). If every invocation of
  \<open>ydl.download\<close> raises \<open>DownloadError\<close>, then \<open>download_video\<close> invokes it once
  per attempt, \<open>max_retries\<close> times in all (5 in the default configuration), logs
  one warning per attempt with the attempt number (from 1) and the title, then logs the
  exhaustion message with \<open>max_retries\<close>, and returns \<open>False\<close>. If an attempt raises
  an exception that is no \<open>DownloadError\<close>, after earlier attempts that raised
  \<open>DownloadError\<close>, that exception leaves \<open>download_video\<close>: no further invocation
  is made and nothing more is logged.
\<close>

theorem download_video_exhausts_retries:
  assumes "map_of video_info (str ''id'') = Some vid"
  shows
   "((\<forall>n<nat (max_retries cfg).
        dl n (download_opts cfg output_path) [str ''https://www.youtube.com/watch?v='' @ vid]
          = Raises (err n) \<and> isinstance (err n) DownloadError) \<longrightarrow>
       download_video cfg dl video_info output_path =
         ((map (\<lambda>n. Log WARNING (str ''Attempt %d failed for %s: %s'')
                      [PInt (int n + 1), PStr (title_of video_info), PStr (exc_str (err n))])
               [0..<nat (max_retries cfg)]
           @ [Log ERROR (str ''Failed to download %s after %d attempts'')
                [PStr (title_of video_info), PInt (max_retries cfg)]],
           replicate (nat (max_retries cfg))
             (download_opts cfg output_path, [str ''https://www.youtube.com/watch?v='' @ vid])),
          Inr False))
    \<and>
    (\<forall>k e. k < nat (max_retries cfg) \<and>
        (\<forall>n<k. dl n (download_opts cfg output_path) [str ''https://www.youtube.com/watch?v='' @ vid]
                  = Raises (err n) \<and> isinstance (err n) DownloadError) \<and>
        dl k (download_opts cfg output_path) [str ''https://www.youtube.com/watch?v='' @ vid] = Raises e \<and>
        \<not> isinstance e DownloadError \<longrightarrow>
        download_video cfg dl video_info output_path =
          ((map (\<lambda>n. Log WARNING (str ''Attempt %d failed for %s: %s'')
                      [PInt (int n + 1), PStr (title_of video_info), PStr (exc_str (err n))])
               [0..<k],
            replicate (Suc k)
              (download_opts cfg output_path, [str ''https://www.youtube.com/watch?v='' @ vid])),
           Inl e))"
proof (intro conjI impI allI)
  assume "\<forall>n<nat (max_retries cfg).
        dl n (download_opts cfg output_path) [str ''https://www.youtube.com/watch?v='' @ vid]
          = Raises (err n) \<and> isinstance (err n) DownloadError"
  then show "download_video cfg dl video_info output_path =
         ((map (\<lambda>n. Log WARNING (str ''Attempt %d failed for %s: %s'')
                      [PInt (int n + 1), PStr (title_of video_info), PStr (exc_str (err n))])
               [0..<nat (max_retries cfg)]
           @ [Log ERROR (str ''Failed to download %s after %d attempts'')
                [PStr (title_of video_info), PInt (max_retries cfg)]],
           replicate (nat (max_retries cfg))
             (download_opts cfg output_path, [str ''https://www.youtube.com/watch?v='' @ vid])),
          Inr False)"
    using download_video_after_failures [OF assms, of "nat (max_retries cfg)" cfg dl output_path err]
    by simp
next
  fix k e
  assume a: "k < nat (max_retries cfg) \<and>
        (\<forall>n<k. dl n (download_opts cfg output_path) [str ''https://www.youtube.com/watch?v='' @ vid]
                  = Raises (err n) \<and> isinstance (err n) DownloadError) \<and>
        dl k (download_opts cfg output_path) [str ''https://www.youtube.com/watch?v='' @ vid] = Raises e \<and>
        \<not> isinstance e DownloadError"
  then have "[k..<nat (max_retries cfg)] = k # [Suc k..<nat (max_retries cfg)]"
    by (simp add: upt_conv_Cons)
  then show "download_video cfg dl video_info output_path =
          ((map (\<lambda>n. Log WARNING (str ''Attempt %d failed for %s: %s'')
                      [PInt (int n + 1), PStr (title_of video_info), PStr (exc_str (err n))])
               [0..<k],
            replicate (Suc k)
              (download_opts cfg output_path, [str ''https://www.youtube.com/watch?v='' @ vid])),
           Inl e)"
    using download_video_after_failures [OF assms, of k cfg dl output_path err] a assms
    by (simp add: Let_def replicate_append_same)
qed

theorem download_video_exhausts_retries_witness:
  "download_video config (\<lambda>n opts urls. Raises (Exc DownloadError (str ''Test error'')))
     [(str ''id'', str ''abc123'')] (str ''/tmp'') =
     ((map (\<lambda>n. Log WARNING (str ''Attempt %d failed for %s: %s'')
                  [PInt (int n + 1), PStr (str ''Unknown video''), PStr (str ''Test error'')])
           [0..<5]
       @ [Log ERROR (str ''Failed to download %s after %d attempts'')
            [PStr (str ''Unknown video''), PInt 5]],
       replicate 5 (download_opts config (str ''/tmp''),
                    [str ''https://www.youtube.com/watch?v=abc123''])),
      Inr False)
   \<and>
   download_video config
     (\<lambda>n opts urls. if n < 2 then Raises (Exc DownloadError (str ''Test error''))
                     else Raises (Exc OSError (str ''disk full'')))
     [(str ''id'', str ''abc123'')] (str ''/tmp'') =
     ((map (\<lambda>n. Log WARNING (str ''Attempt %d failed for %s: %s'')
                  [PInt (int n + 1), PStr (str ''Unknown video''), PStr (str ''Test error'')])
           [0..<2],
       replicate 3 (download_opts config (str ''/tmp''),
                    [str ''https://www.youtube.com/watch?v=abc123''])),
      Inl (Exc OSError (str ''disk full'')))"
proof -
  have i: "map_of [(str ''id'', str ''abc123'')] (str ''id'') = Some (str ''abc123'')"
    by simp
  have t: "title_of [(str ''id'', str ''abc123'')] = str ''Unknown video''"
    by (simp add: title_of_def str_def)
  have u: "str ''https://www.youtube.com/watch?v='' @ str ''abc123'' = str ''https://www.youtube.com/watch?v=abc123''"
    by (simp add: str_def)
  have m: "nat (max_retries config) = 5" "max_retries config = 5"
    by (simp_all add: config_def)
  have a: "download_video config (\<lambda>n opts urls. Raises (Exc DownloadError (str ''Test error'')))
     [(str ''id'', str ''abc123'')] (str ''/tmp'') =
     ((map (\<lambda>n. Log WARNING (str ''Attempt %d failed for %s: %s'')
                  [PInt (int n + 1), PStr (str ''Unknown video''), PStr (str ''Test error'')])
           [0..<5]
       @ [Log ERROR (str ''Failed to download %s after %d attempts'')
            [PStr (str ''Unknown video''), PInt 5]],
       replicate 5 (download_opts config (str ''/tmp''),
                    [str ''https://www.youtube.com/watch?v=abc123''])),
      Inr False)"
    using download_video_exhausts_retries [OF i, of config
        "\<lambda>n opts urls. Raises (Exc DownloadError (str ''Test error''))" "str ''/tmp''"
        "\<lambda>n. Exc DownloadError (str ''Test error'')", THEN conjunct1]
    by (simp add: t u m)
  have b: "download_video config
     (\<lambda>n opts urls. if n < 2 then Raises (Exc DownloadError (str ''Test error''))
                     else Raises (Exc OSError (str ''disk full'')))
     [(str ''id'', str ''abc123'')] (str ''/tmp'') =
     ((map (\<lambda>n. Log WARNING (str ''Attempt %d failed for %s: %s'')
                  [PInt (int n + 1), PStr (str ''Unknown video''), PStr (str ''Test error'')])
           [0..<2],
       replicate 3 (download_opts config (str ''/tmp''),
                    [str ''https://www.youtube.com/watch?v=abc123''])),
      Inl (Exc OSError (str ''disk full'')))"
    using download_video_exhausts_retries [OF i, of config
        "\<lambda>n opts urls. if n < 2 then Raises (Exc DownloadError (str ''Test error''))
                     else Raises (Exc OSError (str ''disk full''))" "str ''/tmp''"
        "\<lambda>n. Exc DownloadError (str ''Test error'')", THEN conjunct2, rule_format,
        of 2 "Exc OSError (str ''disk full'')"]
    by (simp add: t u m numeral_3_eq_3)
  show ?thesis
    using a b by (rule conjI)
qed

text \<open>
  Claim C2. Let the download target have an identifier. If \<open>ydl.download\<close> raises
  \<open>DownloadError\<close> in the attempts 1 to \<open>k - 1\<close> and returns in attempt \<open>k\<close>, where
  \<open>k\<close> is at most \<open>max_retries\<close>, then \<open>download_video\<close> returns \<open>True\<close> after
  exactly \<open>k\<close> invocations of \<open>ydl.download\<close>: its only effects are these \<open>k\<close>
  invocations and the \<open>k - 1\<close> warnings, so no further attempt is made and nothing is
  done after the download that succeeded.
\<close>

theorem download_video_succeeds_on_attempt:
  assumes "map_of video_info (str ''id'') = Some vid"
    and "0 < k" and "int k \<le> max_retries cfg"
    and "\<forall>n<k - 1. dl n (download_opts cfg output_path) [str ''https://www.youtube.com/watch?v='' @ vid]
                  = Raises (err n) \<and> isinstance (err n) DownloadError"
    and "dl (k - 1) (download_opts cfg output_path) [str ''https://www.youtube.com/watch?v='' @ vid]
           = Returns ()"
  shows "download_video cfg dl video_info output_path =
          ((map (\<lambda>n. Log WARNING (str ''Attempt %d failed for %s: %s'')
                      [PInt (int n + 1), PStr (title_of video_info), PStr (exc_str (err n))])
               [0..<k - 1],
            replicate k
              (download_opts cfg output_path, [str ''https://www.youtube.com/watch?v='' @ vid])),
           Inr True)"
proof -
  have le: "k - 1 \<le> nat (max_retries cfg)" and lt: "k - 1 < nat (max_retries cfg)"
    using assms(2,3) by linarith+
  have "[k - 1..<nat (max_retries cfg)] = (k - 1) # [Suc (k - 1)..<nat (max_retries cfg)]"
    using lt by (simp add: upt_conv_Cons)
  moreover have "replicate (k - 1) x @ [x] = replicate k x" for x :: ydl_call
    using assms(2) by (cases k) (simp_all add: replicate_append_same)
  ultimately show ?thesis
    using download_video_after_failures [where k = "k - 1" and dl = dl and err = err
        and video_info = video_info and vid = vid and cfg = cfg and output_path = output_path]
      le assms(1,4,5)
    by (simp add: Let_def)
qed

theorem download_video_succeeds_on_attempt_witness:
  "download_video config
     (\<lambda>n opts urls. if n < 2 then Raises (Exc DownloadError (str ''Test error'')) else Returns ())
     [(str ''id'', str ''abc123''), (str ''title'', str ''A video'')] (str ''/tmp'') =
     ((map (\<lambda>n. Log WARNING (str ''Attempt %d failed for %s: %s'')
                  [PInt (int n + 1), PStr (str ''A video''), PStr (str ''Test error'')])
           [0..<2],
       replicate 3 (download_opts config (str ''/tmp''),
                    [str ''https://www.youtube.com/watch?v=abc123''])),
      Inr True)"
proof -
  have i: "map_of [(str ''id'', str ''abc123''), (str ''title'', str ''A video'')] (str ''id'')
             = Some (str ''abc123'')"
    by simp
  have t: "title_of [(str ''id'', str ''abc123''), (str ''title'', str ''A video'')] = str ''A video''"
    by (simp add: title_of_def str_def)
  have u: "str ''https://www.youtube.com/watch?v='' @ str ''abc123'' = str ''https://www.youtube.com/watch?v=abc123''"
    by (simp add: str_def)
  have k: "(0::nat) < 3" "int 3 \<le> max_retries config"
    by (simp_all add: config_def)
  show ?thesis
    using download_video_succeeds_on_attempt [where k = 3 and cfg = config
        and dl = "\<lambda>n opts urls. if n < 2 then Raises (Exc DownloadError (str ''Test error'')) else Returns ()"
        and output_path = "str ''/tmp''" and err = "\<lambda>n. Exc DownloadError (str ''Test error'')"
        and video_info = "[(str ''id'', str ''abc123''), (str ''title'', str ''A video'')]"
        and vid = "str ''abc123''"] i k
    by (simp add: t u)
qed

text \<open>
  Claim C10. For a dictionary without the \<open>'id'\<close> key, \<open>download_video\<close> raises
  \<open>KeyError\<close> in its first attempt, before any invocation of \<open>ydl.download\<close> and
  without logging: the exception is no \<open>DownloadError\<close>, so it is neither retried nor
  turned into the result \<open>False\<close>. There is a first attempt when \<open>max_retries\<close> is
  positive, as in the default configuration.
\<close>

theorem download_video_missing_id_raises:
  assumes "map_of video_info (str ''id'') = None" and "0 < max_retries cfg"
  shows "download_video cfg dl video_info output_path =
           (([], []), Inl (Exc KeyError (chr_quote # str ''id'' @ [chr_quote])))
         \<and> \<not> isinstance (Exc KeyError (chr_quote # str ''id'' @ [chr_quote])) DownloadError
         \<and> snd (download_video cfg dl video_info output_path) \<noteq> Inr False"
proof -
  have "[0..<nat (max_retries cfg)] = 0 # [1..<nat (max_retries cfg)]"
    using assms(2) by (simp add: upt_conv_Cons)
  then show ?thesis
    using assms(1) by (simp add: download_video_def)
qed

theorem download_video_missing_id_raises_witness:
  "download_video config (\<lambda>n opts urls. Returns ()) [(str ''title'', str ''A video'')] (str ''/tmp'') =
     (([], []), Inl (Exc KeyError (chr_quote # str ''id'' @ [chr_quote])))"
proof -
  have i: "map_of [(str ''title'', str ''A video'')] (str ''id'') = None"
    by (simp add: str_def)
  have m: "0 < max_retries config"
    by (simp add: config_def)
  show ?thesis
    using download_video_missing_id_raises [where dl = "\<lambda>n opts urls. Returns ()"
        and output_path = "str ''/tmp''" and cfg = config
        and video_info = "[(str ''title'', str ''A video'')]"] i m
    by simp
qed

section \<open>Properties of the collection-level flow\<close>

text \<open>
  Claim C5. If the metadata fetch returns \<open>None\<close> or a dictionary without the
  \<open>'entries'\<close> key, \<open>download_playlist\<close> logs one error and returns: it asks for no
  directory to be created and starts no batch of downloads, so nothing changes under
  the storage root.
\<close>

theorem download_playlist_aborts_without_entries:
  assumes "get_playlist_info extract_info playlist_url = (logs, Inr playlist_info)"
    and "playlist_info = None \<or> (\<exists>info. playlist_info = Some info \<and> map_of info (str ''entries'') = None)"
  shows "download_playlist cfg isalnum extract_info makedirs dls completion playlist_url storage_location =
     \<lparr> pl_logs = logs @ [Log ERROR (if playlist_info = None \<or> playlist_info = Some []
                                     then str ''Failed to retrieve playlist information.''
                                     else str ''No videos found in the playlist.'') []],
       pl_makedirs = [], pl_batch = None, pl_result = Inr () \<rparr>"
  using assms by (auto simp: download_playlist_def)

theorem download_playlist_aborts_without_entries_witness:
  "download_playlist config ascii_isalnum
     (\<lambda>opts url download. Returns (Some [(str ''title'', PStr (str ''Test Playlist''))]))
     (\<lambda>path. Returns ()) (\<lambda>i n opts urls. Returns ()) []
     (str ''https://www.youtube.com/playlist?list=abc123'') (str ''/tmp'') =
     \<lparr> pl_logs = [Log ERROR (str ''No videos found in the playlist.'') []],
       pl_makedirs = [], pl_batch = None, pl_result = Inr () \<rparr>
   \<and>
   download_playlist config ascii_isalnum
     (\<lambda>opts url download. Raises (Exc ExtractorError (str ''Test error'')))
     (\<lambda>path. Returns ()) (\<lambda>i n opts urls. Returns ()) []
     (str ''https://www.youtube.com/playlist?list=abc123'') (str ''/tmp'') =
     \<lparr> pl_logs = [Log ERROR (str ''Failed to extract playlist information: %s'') [PStr (str ''Test error'')],
                  Log ERROR (str ''Failed to retrieve playlist information.'') []],
       pl_makedirs = [], pl_batch = None, pl_result = Inr () \<rparr>"
proof -
  have g1: "get_playlist_info (\<lambda>opts url download. Returns (Some [(str ''title'', PStr (str ''Test Playlist''))]))
       (str ''https://www.youtube.com/playlist?list=abc123'') =
       ([], Inr (Some [(str ''title'', PStr (str ''Test Playlist''))]))"
    by (simp add: get_playlist_info_def)
  have e1: "Some [(str ''title'', PStr (str ''Test Playlist''))] = None \<or>
     (\<exists>info. Some [(str ''title'', PStr (str ''Test Playlist''))] = Some info \<and>
        map_of info (str ''entries'') = None)"
    by (simp add: str_def)
  have g2: "get_playlist_info (\<lambda>opts url download. Raises (Exc ExtractorError (str ''Test error'')))
       (str ''https://www.youtube.com/playlist?list=abc123'') =
       ([Log ERROR (str ''Failed to extract playlist information: %s'') [PStr (str ''Test error'')]],
        Inr None)"
    by (simp add: get_playlist_info_def)
  have e2: "(None :: pydict option) = None \<or>
     (\<exists>info. None = Some info \<and> map_of info (str ''entries'') = None)"
    by simp
  have a: "download_playlist config ascii_isalnum
     (\<lambda>opts url download. Returns (Some [(str ''title'', PStr (str ''Test Playlist''))]))
     (\<lambda>path. Returns ()) (\<lambda>i n opts urls. Returns ()) []
     (str ''https://www.youtube.com/playlist?list=abc123'') (str ''/tmp'') =
     \<lparr> pl_logs = [Log ERROR (str ''No videos found in the playlist.'') []],
       pl_makedirs = [], pl_batch = None, pl_result = Inr () \<rparr>"
    using download_playlist_aborts_without_entries [OF g1 e1, of config ascii_isalnum
        "\<lambda>path. Returns ()" "\<lambda>i n opts urls. Returns ()" "[]" "str ''/tmp''"]
    by simp
  have b: "download_playlist config ascii_isalnum
     (\<lambda>opts url download. Raises (Exc ExtractorError (str ''Test error'')))
     (\<lambda>path. Returns ()) (\<lambda>i n opts urls. Returns ()) []
     (str ''https://www.youtube.com/playlist?list=abc123'') (str ''/tmp'') =
     \<lparr> pl_logs = [Log ERROR (str ''Failed to extract playlist information: %s'') [PStr (str ''Test error'')],
                  Log ERROR (str ''Failed to retrieve playlist information.'') []],
       pl_makedirs = [], pl_batch = None, pl_result = Inr () \<rparr>"
    using download_playlist_aborts_without_entries [OF g2 e2, of config ascii_isalnum
        "\<lambda>path. Returns ()" "\<lambda>i n opts urls. Returns ()" "[]" "str ''/tmp''"]
    by simp
  show ?thesis
    using a b by (rule conjI)
qed

section \<open>Properties of the URL validator\<close>

lemma str_Nil: "str [] = []"
  by (simp add: str_def)

lemma length_str: "length (str w) = length w"
  by (simp add: str_def)

lemma rmatch_lits:
  "rmatch (lits w) (b, s) =
     (if prefix (str w) s then [(b \<and> w = [], drop (length w) s)] else [])"
proof (induction w arbitrary: b s)
  case Nil
  then show ?case by (simp add: lits_def str_def)
next
  case (Cons c w)
  have l: "lits (c # w) = Seq (Lit (of_char c)) (lits w)"
    by (simp add: lits_def)
  show ?case
  proof (cases s)
    case Nil
    then show ?thesis by (simp add: l str_def)
  next
    case (Cons x xs)
    then show ?thesis
      using Cons.IH [of False xs] by (simp add: l str_def)
  qed
qed

lemma rmatch_lits_mem:
  "(b', t) \<in> set (rmatch (lits w) (b, s)) \<longleftrightarrow> s = str w @ t \<and> b' = (b \<and> w = [])"
  using length_str [of w] by (auto simp: rmatch_lits prefix_def str_Nil)

lemma rmatch_plus_dot:
  "rmatch (Plus Dot) (b, s) \<noteq> [] \<longleftrightarrow> (\<exists>c rest. s = c # rest \<and> c \<noteq> chr_newline)"
  by (cases s) auto

lemma validate_url_nonempty:
  "validate_url s \<longleftrightarrow> rmatch youtube_regex (True, s) \<noteq> []"
  by (simp add: validate_url_def re_match_def split: list.splits)

lemma rmatch_Caret_Seq:
  "rmatch (Seq Caret r) (True, s) = rmatch r (True, s)"
  by simp

lemma rmatch_Seq_nonempty:
  "rmatch (Seq r1 r2) st \<noteq> [] \<longleftrightarrow>
     (\<exists>b t. (b, t) \<in> set (rmatch r1 st) \<and> rmatch r2 (b, t) \<noteq> [])"
  by auto

lemma rmatch_Seq_mem:
  "x \<in> set (rmatch (Seq r1 r2) st) \<longleftrightarrow>
     (\<exists>b t. (b, t) \<in> set (rmatch r1 st) \<and> x \<in> set (rmatch r2 (b, t)))"
  by auto

lemma rmatch_Opt_mem:
  "x \<in> set (rmatch (Opt r) st) \<longleftrightarrow> x \<in> set (rmatch r st) \<or> x = st"
  by auto

lemma rmatch_Alt_mem:
  "x \<in> set (rmatch (Alt r1 r2) st) \<longleftrightarrow> x \<in> set (rmatch r1 st) \<or> x \<in> set (rmatch r2 st)"
  by auto

lemma scheme_mem:
  "(b', t) \<in> set (rmatch (Opt (Seq (lits ''http'') (Seq (Opt (lits ''s'')) (lits ''://'')))) (b, s))
   \<longleftrightarrow> (t = s \<and> b' = b) \<or> (s = str ''http://'' @ t \<and> \<not> b') \<or> (s = str ''https://'' @ t \<and> \<not> b')"
proof -
  have 1: "str ''http://'' = str ''http'' @ str ''://''"
    and 2: "str ''https://'' = str ''http'' @ str ''s'' @ str ''://''"
    by (simp_all add: str_def)
  show ?thesis
    unfolding rmatch_Opt_mem rmatch_Seq_mem rmatch_lits_mem 1 2
    by auto
qed

lemma www_mem:
  "(b', t) \<in> set (rmatch (Opt (lits ''www.'')) (b, s))
   \<longleftrightarrow> (t = s \<and> b' = b) \<or> (s = str ''www.'' @ t \<and> \<not> b')"
  unfolding rmatch_Opt_mem rmatch_lits_mem by auto

lemma host_mem:
  "(b', t) \<in> set (rmatch (Alt (lits ''youtube.com'') (lits ''youtu.be'')) (b, s))
   \<longleftrightarrow> (s = str ''youtube.com'' @ t \<and> \<not> b') \<or> (s = str ''youtu.be'' @ t \<and> \<not> b')"
  unfolding rmatch_Alt_mem rmatch_lits_mem by auto

lemma slash_mem:
  "(b', t) \<in> set (rmatch (lits ''/'') (b, s)) \<longleftrightarrow> s = str ''/'' @ t \<and> \<not> b'"
  unfolding rmatch_lits_mem by auto

lemma validate_url_unfolded:
  "validate_url s \<longleftrightarrow>
    (\<exists>b1 t1. ((t1 = s \<and> b1 = True) \<or> (s = str ''http://'' @ t1 \<and> \<not> b1) \<or>
               (s = str ''https://'' @ t1 \<and> \<not> b1)) \<and>
      (\<exists>b2 t2. ((t2 = t1 \<and> b2 = b1) \<or> (t1 = str ''www.'' @ t2 \<and> \<not> b2)) \<and>
        (\<exists>b3 t3. ((t2 = str ''youtube.com'' @ t3 \<and> \<not> b3) \<or>
                   (t2 = str ''youtu.be'' @ t3 \<and> \<not> b3)) \<and>
          (\<exists>b4 t4. (t3 = str ''/'' @ t4 \<and> \<not> b4) \<and>
            (\<exists>c rest. t4 = c # rest \<and> c \<noteq> chr_newline)))))"
  unfolding validate_url_nonempty youtube_regex_def rmatch_Caret_Seq
    rmatch_Seq_nonempty scheme_mem www_mem host_mem slash_mem rmatch_plus_dot
  by (rule refl)

lemma validate_url_chain:
  "validate_url s \<longleftrightarrow>
    (\<exists>t1 t2 t3 c rest.
       (t1 = s \<or> s = str ''http://'' @ t1 \<or> s = str ''https://'' @ t1) \<and>
       (t2 = t1 \<or> t1 = str ''www.'' @ t2) \<and>
       (t2 = str ''youtube.com'' @ t3 \<or> t2 = str ''youtu.be'' @ t3) \<and>
       t3 = str ''/'' @ c # rest \<and> c \<noteq> chr_newline)"
  unfolding validate_url_unfolded
  by (simp only: ex_simps conj_disj_distribR ex_disj_distrib simp_thms) auto

lemma validate_url_form:
  "validate_url s \<longleftrightarrow>
    (\<exists>scheme\<in>{[], str ''http://'', str ''https://''}. \<exists>www\<in>{[], str ''www.''}.
     \<exists>host\<in>{str ''youtube.com'', str ''youtu.be''}. \<exists>c rest.
       s = scheme @ www @ host @ str ''/'' @ c # rest \<and> c \<noteq> chr_newline)"
  unfolding validate_url_chain
  by (simp only: bex_simps insert_iff empty_iff ex_simps conj_disj_distribR ex_disj_distrib simp_thms)
    auto

text \<open>
  Claim C6, as amended. \<open>validate_url\<close> returns true exactly for the strings that
  consist of an optional scheme \<open>http://\<close> or \<open>https://\<close>, an optional \<open>www.\<close>,
  one of the hosts \<open>youtube.com\<close> and \<open>youtu.be\<close>, a slash, one character that is not
  a newline, and any rest. So it returns false for a string without one of the two
  hosts at that place, and for one with no character, or a newline, right after the
  slash. It returns true for the three example URLs and false for a host with no path.
\<close>

theorem validate_url_accepts_exactly:
  "(validate_url s \<longleftrightarrow>
    (\<exists>scheme\<in>{[], str ''http://'', str ''https://''}. \<exists>www\<in>{[], str ''www.''}.
     \<exists>host\<in>{str ''youtube.com'', str ''youtu.be''}. \<exists>c rest.
       s = scheme @ www @ host @ str ''/'' @ c # rest \<and> c \<noteq> chr_newline))
   \<and> validate_url (str ''https://www.youtube.com/watch?v=ID'')
   \<and> validate_url (str ''https://youtu.be/ID'')
   \<and> validate_url (str ''http://www.youtube.com/playlist?list=ID'')
   \<and> \<not> validate_url (str ''https://www.youtube.com'')
   \<and> \<not> validate_url (str ''https://www.google.com'')
   \<and> \<not> validate_url (str ''not a url'')"
proof (intro conjI)
  show "validate_url s \<longleftrightarrow>
    (\<exists>scheme\<in>{[], str ''http://'', str ''https://''}. \<exists>www\<in>{[], str ''www.''}.
     \<exists>host\<in>{str ''youtube.com'', str ''youtu.be''}. \<exists>c rest.
       s = scheme @ www @ host @ str ''/'' @ c # rest \<and> c \<noteq> chr_newline)"
    by (rule validate_url_form)
  have n: "of_char (CHR ''w'') \<noteq> chr_newline" "of_char (CHR ''I'') \<noteq> chr_newline"
    "of_char (CHR ''p'') \<noteq> chr_newline"
    by (simp_all add: chr_newline_def)
  have "str ''https://www.youtube.com/watch?v=ID'' =
        str ''https://'' @ str ''www.'' @ str ''youtube.com'' @ str ''/'' @
        of_char (CHR ''w'') # str ''atch?v=ID''"
    by (simp add: str_def)
  then show "validate_url (str ''https://www.youtube.com/watch?v=ID'')"
    using n unfolding validate_url_form by blast
  have "str ''https://youtu.be/ID'' =
        str ''https://'' @ [] @ str ''youtu.be'' @ str ''/'' @ of_char (CHR ''I'') # str ''D''"
    by (simp add: str_def)
  then show "validate_url (str ''https://youtu.be/ID'')"
    using n unfolding validate_url_form by blast
  have "str ''http://www.youtube.com/playlist?list=ID'' =
        str ''http://'' @ str ''www.'' @ str ''youtube.com'' @ str ''/'' @
        of_char (CHR ''p'') # str ''laylist?list=ID''"
    by (simp add: str_def)
  then show "validate_url (str ''http://www.youtube.com/playlist?list=ID'')"
    using n unfolding validate_url_form by blast
  show "\<not> validate_url (str ''https://www.youtube.com'')"
    by (simp add: validate_url_def re_match_def youtube_regex_def lits_def str_def)
  show "\<not> validate_url (str ''https://www.google.com'')"
    by (simp add: validate_url_def re_match_def youtube_regex_def lits_def str_def)
  show "\<not> validate_url (str ''not a url'')"
    by (simp add: validate_url_def re_match_def youtube_regex_def lits_def str_def)
qed

theorem validate_url_accepts_exactly_witness:
  "validate_url (str ''youtu.be/x'')"
proof -
  have "str ''youtu.be/x'' = [] @ [] @ str ''youtu.be'' @ str ''/'' @ of_char (CHR ''x'') # []"
    by (simp add: str_def)
  moreover have "of_char (CHR ''x'') \<noteq> chr_newline"
    by (simp add: chr_newline_def)
  ultimately show ?thesis
    using validate_url_accepts_exactly [where s = "str ''youtu.be/x''", THEN conjunct1]
    by blast
qed

text \<open>
  Claim C6 as stated fails: the string below begins with a scheme, a host and a slash
  that is followed by a path which is not empty (a single newline), and
  \<open>validate_url\<close> returns false for it, since \<open>.\<close> matches no newline.
\<close>

theorem validate_url_rejects_newline_path:
  "str ''https://youtu.be/'' @ [chr_newline] =
     str ''https://'' @ [] @ str ''youtu.be'' @ str ''/'' @ [chr_newline]
   \<and> [chr_newline] \<noteq> []
   \<and> \<not> validate_url (str ''https://youtu.be/'' @ [chr_newline])"
  by (simp add: validate_url_def re_match_def youtube_regex_def lits_def str_def)

section \<open>Properties of the progress reporter\<close>

lemma basename_example:
  "basename (str ''/x/file.mp4'') = str ''file.mp4''"
  by (simp add: basename_def str_def chr_slash_def)

lemma status_literals_differ:
  "str ''downloading'' \<noteq> str ''finished''"
  by (simp add: str_def)

lemma progress_keys_differ:
  "str ''status'' \<noteq> str ''total_bytes''" "str ''status'' \<noteq> str ''downloaded_bytes''"
  "str ''status'' \<noteq> str ''filename''" "str ''total_bytes'' \<noteq> str ''downloaded_bytes''"
  "str ''total_bytes'' \<noteq> str ''filename''" "str ''downloaded_bytes'' \<noteq> str ''filename''"
  by (simp_all add: str_def)

lemma bit_length_examples:
  "bit_length 500 = 9" "bit_length 1000 = 10" "bit_length 3000 = 12"
  "bit_length 450359962737049600 = 59" "bit_length 9007199254740992 = 54"
  "bit_length 600479950316066100 = 60" "bit_length 18014398509481984 = 55"
  by (simp_all add: bit_length.simps)

lemma decimal_examples:
  "decimal 50 = str ''50''" "decimal 0 = str ''0''" "decimal 33 = str ''33''"
  "decimal 3 = str ''3''"
  by (simp_all add: decimal.simps str_def)

lemma truediv_500_1000:
  "truediv 500 1000 = Inr (Finite False 4503599627370496 (- 53))"
  by (simp add: truediv_def round_div_def round_half_even_def too_large_def Let_def
      bit_length_examples)

lemma mul_100_half:
  "mul_100 (Finite False 4503599627370496 (- 53)) = Finite False 7036874417766400 (- 47)"
  by (simp add: round_div_def round_half_even_def too_large_def Let_def bit_length_examples)

lemma format_1f_fifty:
  "format_1f (Finite False 7036874417766400 (- 47)) = str ''50.0''"
proof -
  have "str ''50'' @ str ''.'' @ str ''0'' = str ''50.0''"
    by (simp add: str_def)
  then show ?thesis
    by (simp add: round_half_even_def Let_def decimal_examples)
qed

lemma truediv_1000_3000:
  "truediv 1000 3000 = Inr (Finite False 6004799503160661 (- 54))"
  by (simp add: truediv_def round_div_def round_half_even_def too_large_def Let_def
      bit_length_examples)

lemma mul_100_third:
  "mul_100 (Finite False 6004799503160661 (- 54)) = Finite False 4691249611844266 (- 47)"
  by (simp add: round_div_def round_half_even_def too_large_def Let_def bit_length_examples)

lemma format_1f_third:
  "format_1f (Finite False 4691249611844266 (- 47)) = str ''33.3''"
proof -
  have "str ''33'' @ str ''.'' @ str ''3'' = str ''33.3''"
    by (simp add: str_def)
  then show ?thesis
    by (simp add: round_half_even_def Let_def decimal_examples)
qed

text \<open>
  Claim C8. For a dictionary with the status \<open>"downloading"\<close>, a truthy
  \<open>total_bytes\<close>, a \<open>downloaded_bytes\<close> and a \<open>filename\<close>, \<open>progress_hook\<close> makes
  exactly one call of \<open>tqdm.write\<close>: the message is \<open>Downloading\<close>, the base name of
  the file, a colon, the float \<open>downloaded_bytes / total_bytes\<close> times 100 printed
  with one decimal place, and a percent sign; the \<open>end\<close> argument is a carriage
  return, which is no newline. For the status \<open>"finished"\<close> and a \<open>filename\<close> the one
  message is a newline, \<open>Finished downloading\<close> and the base name. For the dictionary
  of the example (500 of 1000 bytes, \<open>/x/file.mp4\<close>) the message is
  \<open>Downloading file.mp4: 50.0%\<close>, and for the same file with the status
  \<open>"finished"\<close> it is a newline and \<open>Finished downloading file.mp4\<close>. For any other
  status nothing is written.
\<close>

theorem progress_hook_output:
  "(map_of d (str ''status'') = Some (PStr (str ''downloading'')) \<and>
    map_of d (str ''total_bytes'') = Some total_bytes \<and> truthy total_bytes \<and>
    number_of total_bytes = Some t \<and>
    map_of d (str ''downloaded_bytes'') = Some downloaded_bytes \<and>
    number_of downloaded_bytes = Some n \<and>
    truediv n t = Inr q \<and>
    map_of d (str ''filename'') = Some (PStr p) \<longrightarrow>
      progress_hook d =
        Inr [TqdmWrite (str ''Downloading '' @ basename p @ str '': '' @
                        format_1f (mul_100 q) @ str ''%'') [chr_return]])
   \<and> chr_return \<noteq> chr_newline
   \<and> (map_of d (str ''status'') = Some (PStr (str ''finished'')) \<and>
      map_of d (str ''filename'') = Some (PStr p) \<longrightarrow>
      progress_hook d =
        Inr [TqdmWrite (chr_newline # str ''Finished downloading '' @ basename p) [chr_newline]])
   \<and> progress_hook
        [(str ''status'', PStr (str ''downloading'')), (str ''total_bytes'', PInt 1000),
         (str ''downloaded_bytes'', PInt 500), (str ''filename'', PStr (str ''/x/file.mp4''))] =
        Inr [TqdmWrite (str ''Downloading file.mp4: 50.0%'') [chr_return]]
   \<and> progress_hook
        [(str ''status'', PStr (str ''finished'')), (str ''filename'', PStr (str ''/x/file.mp4''))] =
        Inr [TqdmWrite (chr_newline # str ''Finished downloading file.mp4'') [chr_newline]]
   \<and> (map_of d (str ''status'') = Some st \<and> st \<noteq> PStr (str ''downloading'') \<and>
      st \<noteq> PStr (str ''finished'') \<longrightarrow>
      progress_hook d = Inr [])"
proof (intro conjI impI)
  assume a: "map_of d (str ''status'') = Some (PStr (str ''downloading'')) \<and>
    map_of d (str ''total_bytes'') = Some total_bytes \<and> truthy total_bytes \<and>
    number_of total_bytes = Some t \<and>
    map_of d (str ''downloaded_bytes'') = Some downloaded_bytes \<and>
    number_of downloaded_bytes = Some n \<and>
    truediv n t = Inr q \<and>
    map_of d (str ''filename'') = Some (PStr p)"
  then have "t \<noteq> 0"
    by (cases total_bytes) auto
  then show "progress_hook d =
        Inr [TqdmWrite (str ''Downloading '' @ basename p @ str '': '' @
                        format_1f (mul_100 q) @ str ''%'') [chr_return]]"
    using a by (simp add: progress_hook_def py_truediv_def basename_of_filename_def Let_def)
next
  show "chr_return \<noteq> chr_newline"
    by (simp add: chr_return_def chr_newline_def)
next
  assume "map_of d (str ''status'') = Some (PStr (str ''finished'')) \<and>
      map_of d (str ''filename'') = Some (PStr p)"
  then show "progress_hook d =
        Inr [TqdmWrite (chr_newline # str ''Finished downloading '' @ basename p) [chr_newline]]"
    using status_literals_differ
    by (auto simp: progress_hook_def basename_of_filename_def)
next
  have s: "str ''Downloading '' @ str ''file.mp4'' @ str '': '' @ str ''50.0'' @ str ''%'' =
           str ''Downloading file.mp4: 50.0%''"
    by (simp add: str_def)
  show "progress_hook
        [(str ''status'', PStr (str ''downloading'')), (str ''total_bytes'', PInt 1000),
         (str ''downloaded_bytes'', PInt 500), (str ''filename'', PStr (str ''/x/file.mp4''))] =
        Inr [TqdmWrite (str ''Downloading file.mp4: 50.0%'') [chr_return]]"
    using progress_keys_differ progress_keys_differ [symmetric]
    by (simp add: progress_hook_def py_truediv_def basename_of_filename_def Let_def
        basename_example s truediv_500_1000 mul_100_half format_1f_fifty
        del: mul_100.simps format_1f.simps)
next
  have g: "str ''Finished downloading '' @ str ''file.mp4'' = str ''Finished downloading file.mp4''"
    by (simp add: str_def)
  show "progress_hook
        [(str ''status'', PStr (str ''finished'')), (str ''filename'', PStr (str ''/x/file.mp4''))] =
        Inr [TqdmWrite (chr_newline # str ''Finished downloading file.mp4'') [chr_newline]]"
    using progress_keys_differ progress_keys_differ [symmetric] status_literals_differ
      status_literals_differ [symmetric]
    by (simp add: progress_hook_def basename_of_filename_def basename_example g)
next
  assume "map_of d (str ''status'') = Some st \<and> st \<noteq> PStr (str ''downloading'') \<and>
      st \<noteq> PStr (str ''finished'')"
  then show "progress_hook d = Inr []"
    by (simp add: progress_hook_def)
qed

theorem progress_hook_output_witness:
  "progress_hook
     [(str ''status'', PStr (str ''downloading'')), (str ''total_bytes'', PInt 3000),
      (str ''downloaded_bytes'', PInt 1000), (str ''filename'', PStr (str ''/x/file.mp4''))] =
     Inr [TqdmWrite (str ''Downloading file.mp4: 33.3%'') [chr_return]]
   \<and>
   progress_hook [(str ''status'', PStr (str ''error''))] = Inr []"
proof -
  have s: "str ''Downloading '' @ str ''file.mp4'' @ str '': '' @ str ''33.3'' @ str ''%'' =
           str ''Downloading file.mp4: 33.3%''"
    by (simp add: str_def)
  have a: "progress_hook
     [(str ''status'', PStr (str ''downloading'')), (str ''total_bytes'', PInt 3000),
      (str ''downloaded_bytes'', PInt 1000), (str ''filename'', PStr (str ''/x/file.mp4''))] =
     Inr [TqdmWrite (str ''Downloading file.mp4: 33.3%'') [chr_return]]"
    using progress_hook_output [where t = 3000 and n = 1000 and p = "str ''/x/file.mp4''"
        and total_bytes = "PInt 3000" and downloaded_bytes = "PInt 1000"
        and q = "Finite False 6004799503160661 (- 54)"
        and d = "[(str ''status'', PStr (str ''downloading'')), (str ''total_bytes'', PInt 3000),
                  (str ''downloaded_bytes'', PInt 1000), (str ''filename'', PStr (str ''/x/file.mp4''))]",
        THEN conjunct1]
      progress_keys_differ progress_keys_differ [symmetric]
    by (simp add: truediv_1000_3000 mul_100_third format_1f_third basename_example s
        del: mul_100.simps format_1f.simps)
  have c: "progress_hook [(str ''status'', PStr (str ''error''))] = Inr []"
    using progress_hook_output [where st = "PStr (str ''error'')"
        and d = "[(str ''status'', PStr (str ''error''))]",
        THEN conjunct2, THEN conjunct2, THEN conjunct2, THEN conjunct2, THEN conjunct2]
    by (simp add: str_def)
  show ?thesis
    using a c by (intro conjI)
qed

section \<open>Properties of the batch orchestrator\<close>

lemma submitted_filter:
  "map entry_of_video (filter truthy_video (map (case_option VNone VDict) videos)) =
   filter truthy_entry videos"
  by (induction videos) (auto split: option.splits)

lemma submitted_dicts:
  "v \<in> set (filter truthy_video (map (case_option VNone VDict) videos)) \<Longrightarrow> \<exists>d. v = VDict d"
  by (auto split: option.splits)

lemma tasks_download_videos:
  assumes "0 < max_workers cfg"
  shows "tasks (download_videos cfg dls completion (PEntries videos) output_path) =
       map (\<lambda>(i, video). run_task cfg (dls i) video output_path)
         (zip [0..<length (filter truthy_video (map (case_option VNone VDict) videos))]
              (filter truthy_video (map (case_option VNone VDict) videos)))
     \<and> progress_total (download_videos cfg dls completion (PEntries videos) output_path) =
       length (filter truthy_video (map (case_option VNone VDict) videos))"
  using assms by (simp add: download_videos_def Let_def)

lemma run_task_dict:
  "run_task cfg dl (VDict d) output_path =
     \<lparr> task_video = VDict d, task_output_path = output_path,
       task_logs = fst (fst (download_video cfg dl d output_path)),
       task_calls = snd (fst (download_video cfg dl d output_path)),
       task_result = snd (download_video cfg dl d output_path) \<rparr>"
  by (simp add: run_task_def Let_def)

lemma task_video_run_task:
  "task_video (run_task cfg dl video output_path) = video"
  by (cases video) (simp_all add: run_task_def Let_def)

text \<open>
  Claim C3. With a pool of at least one worker, \<open>download_videos\<close> on a list of
  entries runs one task per truthy entry and none for a falsy entry (\<open>None\<close>, or an
  empty dictionary): the videos of the tasks are the truthy entries, each once and in
  the order of the list; the progress bar counts these tasks only; and every task is
  one invocation of \<open>download_video\<close> on its entry and the output path, with a
  downloader of its own: its log records, its calls of \<open>ydl.download\<close> and its result
  are those of that invocation. All log records of a batch are those of its tasks, so
  nothing is logged for a skipped entry. For the entries \<open>[A, None, B]\<close> with \<open>A\<close>
  and \<open>B\<close> truthy there are exactly two tasks, the invocation of \<open>download_video\<close>
  on \<open>A\<close> and the one on \<open>B\<close>.
\<close>

theorem download_videos_one_task_per_truthy_entry:
  assumes "0 < max_workers cfg"
  shows "map (\<lambda>t. entry_of_video (task_video t))
           (tasks (download_videos cfg dls completion (PEntries videos) output_path)) =
           filter truthy_entry videos
       \<and> progress_total (download_videos cfg dls completion (PEntries videos) output_path) =
           length (filter truthy_entry videos)
       \<and> (\<forall>i<length (tasks (download_videos cfg dls completion (PEntries videos) output_path)).
             \<exists>d. tasks (download_videos cfg dls completion (PEntries videos) output_path) ! i =
               \<lparr> task_video = VDict d, task_output_path = output_path,
                 task_logs = fst (fst (download_video cfg (dls i) d output_path)),
                 task_calls = snd (fst (download_video cfg (dls i) d output_path)),
                 task_result = snd (download_video cfg (dls i) d output_path) \<rparr>)
       \<and> (truthy_entry (Some A) \<and> truthy_entry (Some B) \<longrightarrow>
             tasks (download_videos cfg dls completion (PEntries [Some A, None, Some B]) output_path) =
               [\<lparr> task_video = VDict A, task_output_path = output_path,
                  task_logs = fst (fst (download_video cfg (dls 0) A output_path)),
                  task_calls = snd (fst (download_video cfg (dls 0) A output_path)),
                  task_result = snd (download_video cfg (dls 0) A output_path) \<rparr>,
                \<lparr> task_video = VDict B, task_output_path = output_path,
                  task_logs = fst (fst (download_video cfg (dls 1) B output_path)),
                  task_calls = snd (fst (download_video cfg (dls 1) B output_path)),
                  task_result = snd (download_video cfg (dls 1) B output_path) \<rparr>])"
proof -
  define ds where "ds = filter truthy_video (map (case_option VNone VDict) videos)"
  have ts: "tasks (download_videos cfg dls completion (PEntries videos) output_path) =
       map (\<lambda>(i, video). run_task cfg (dls i) video output_path) (zip [0..<length ds] ds)"
    and pt: "progress_total (download_videos cfg dls completion (PEntries videos) output_path) = length ds"
    using tasks_download_videos [OF assms] unfolding ds_def by blast+
  have en: "map entry_of_video ds = filter truthy_entry videos"
    unfolding ds_def by (rule submitted_filter)
  have v: "map task_video (tasks (download_videos cfg dls completion (PEntries videos) output_path)) = ds"
    unfolding ts by (rule nth_equalityI) (simp_all add: task_video_run_task)
  have 1: "map (\<lambda>t. entry_of_video (task_video t))
             (tasks (download_videos cfg dls completion (PEntries videos) output_path)) =
           filter truthy_entry videos"
  proof -
    have "map (\<lambda>t. entry_of_video (task_video t))
            (tasks (download_videos cfg dls completion (PEntries videos) output_path)) =
          map entry_of_video
            (map task_video (tasks (download_videos cfg dls completion (PEntries videos) output_path)))"
      by (simp add: comp_def)
    then show ?thesis
      by (simp only: v en)
  qed
  have 2: "progress_total (download_videos cfg dls completion (PEntries videos) output_path) =
           length (filter truthy_entry videos)"
    using pt en by (metis length_map)
  have 3: "\<forall>i<length (tasks (download_videos cfg dls completion (PEntries videos) output_path)).
             \<exists>d. tasks (download_videos cfg dls completion (PEntries videos) output_path) ! i =
               \<lparr> task_video = VDict d, task_output_path = output_path,
                 task_logs = fst (fst (download_video cfg (dls i) d output_path)),
                 task_calls = snd (fst (download_video cfg (dls i) d output_path)),
                 task_result = snd (download_video cfg (dls i) d output_path) \<rparr>"
  proof (intro allI impI)
    fix i
    assume "i < length (tasks (download_videos cfg dls completion (PEntries videos) output_path))"
    then have i: "i < length ds"
      by (simp add: ts)
    then have "ds ! i \<in> set ds"
      by simp
    then obtain d where d: "ds ! i = VDict d"
      using submitted_dicts unfolding ds_def by blast
    have "tasks (download_videos cfg dls completion (PEntries videos) output_path) ! i =
          run_task cfg (dls i) (ds ! i) output_path"
      using i by (simp add: ts)
    then show "\<exists>d. tasks (download_videos cfg dls completion (PEntries videos) output_path) ! i =
               \<lparr> task_video = VDict d, task_output_path = output_path,
                 task_logs = fst (fst (download_video cfg (dls i) d output_path)),
                 task_calls = snd (fst (download_video cfg (dls i) d output_path)),
                 task_result = snd (download_video cfg (dls i) d output_path) \<rparr>"
      by (simp only: d run_task_dict) blast
  qed
  have 4: "truthy_entry (Some A) \<and> truthy_entry (Some B) \<longrightarrow>
             tasks (download_videos cfg dls completion (PEntries [Some A, None, Some B]) output_path) =
               [\<lparr> task_video = VDict A, task_output_path = output_path,
                  task_logs = fst (fst (download_video cfg (dls 0) A output_path)),
                  task_calls = snd (fst (download_video cfg (dls 0) A output_path)),
                  task_result = snd (download_video cfg (dls 0) A output_path) \<rparr>,
                \<lparr> task_video = VDict B, task_output_path = output_path,
                  task_logs = fst (fst (download_video cfg (dls 1) B output_path)),
                  task_calls = snd (fst (download_video cfg (dls 1) B output_path)),
                  task_result = snd (download_video cfg (dls 1) B output_path) \<rparr>]"
    using assms by (simp add: download_videos_def Let_def run_task_dict)
  show ?thesis
    using 1 2 3 4 by (intro conjI)
qed

lemma download_video_returns_at_once:
  assumes "map_of video_info (str ''id'') = Some vid" and "0 < max_retries cfg"
    and "dl 0 (download_opts cfg output_path) [str ''https://www.youtube.com/watch?v='' @ vid]
           = Returns ()"
  shows "download_video cfg dl video_info output_path =
           (([], [(download_opts cfg output_path, [str ''https://www.youtube.com/watch?v='' @ vid])]),
            Inr True)"
proof -
  have "[0..<nat (max_retries cfg)] = 0 # [1..<nat (max_retries cfg)]"
    using assms(2) by (simp add: upt_conv_Cons)
  then show ?thesis
    using assms(1,3) by (simp add: download_video_def Let_def)
qed

theorem download_videos_one_task_per_truthy_entry_witness:
  "tasks (download_videos config (\<lambda>i n opts urls. Returns ()) [1, 0]
            (PEntries [Some [(str ''id'', str ''video1'')], None, Some [(str ''id'', str ''video2'')]])
            (str ''/tmp'')) =
     [\<lparr> task_video = VDict [(str ''id'', str ''video1'')], task_output_path = str ''/tmp'',
        task_logs = [],
        task_calls = [(download_opts config (str ''/tmp''),
                       [str ''https://www.youtube.com/watch?v='' @ str ''video1''])],
        task_result = Inr True \<rparr>,
      \<lparr> task_video = VDict [(str ''id'', str ''video2'')], task_output_path = str ''/tmp'',
        task_logs = [],
        task_calls = [(download_opts config (str ''/tmp''),
                       [str ''https://www.youtube.com/watch?v='' @ str ''video2''])],
        task_result = Inr True \<rparr>]"
proof -
  have w: "0 < max_workers config" and r: "0 < max_retries config"
    by (simp_all add: config_def)
  have d1: "download_video config (\<lambda>n opts urls. Returns ()) [(str ''id'', str ''video1'')] (str ''/tmp'') =
      (([], [(download_opts config (str ''/tmp''),
              [str ''https://www.youtube.com/watch?v='' @ str ''video1''])]), Inr True)"
    by (rule download_video_returns_at_once) (simp_all add: r)
  have d2: "download_video config (\<lambda>n opts urls. Returns ()) [(str ''id'', str ''video2'')] (str ''/tmp'') =
      (([], [(download_opts config (str ''/tmp''),
              [str ''https://www.youtube.com/watch?v='' @ str ''video2''])]), Inr True)"
    by (rule download_video_returns_at_once) (simp_all add: r)
  show ?thesis
    using download_videos_one_task_per_truthy_entry [OF w, where dls = "\<lambda>i n opts urls. Returns ()"
        and completion = "[1, 0]" and output_path = "str ''/tmp''"
        and A = "[(str ''id'', str ''video1'')]" and B = "[(str ''id'', str ''video2'')]",
        THEN conjunct2, THEN conjunct2, THEN conjunct2]
    by (simp add: d1 d2)
qed

section \<open>Properties of the metadata fetchers\<close>

text \<open>
  What the two fetchers catch: \<open>get_playlist_info\<close> every \<open>YoutubeDLError\<close>
  (\<open>ExtractorError\<close> and \<open>DownloadError\<close> included), \<open>get_video_info\<close> a
  \<open>DownloadError\<close> or an \<open>ExtractorError\<close>. Any other exception leaves
  \<open>get_video_info\<close>, and nothing is logged.
\<close>

lemma fetchers_catch:
  "(extract_info playlist_opts url False = Raises e \<and> isinstance e YoutubeDLError \<longrightarrow>
      get_playlist_info extract_info url =
        ([Log ERROR (if isinstance e ExtractorError
                     then str ''Failed to extract playlist information: %s''
                     else str ''A YouTube-DL error occurred: %s'')
            [PStr (exc_str e)]], Inr None))
   \<and>
   (extract_info video_opts url False = Raises e \<and>
      (isinstance e DownloadError \<or> isinstance e ExtractorError) \<longrightarrow>
      get_video_info extract_info url =
        ([Log ERROR (str ''Error retrieving video information: %s'') [PStr (exc_str e)]], Inr None))"
  by (cases e) (auto simp: get_playlist_info_def get_video_info_def)

lemma get_video_info_propagates:
  assumes "extract_info video_opts url False = Raises e"
    and "\<not> isinstance e DownloadError" and "\<not> isinstance e ExtractorError"
  shows "get_video_info extract_info url = ([], Inl e)"
  using assms by (simp add: get_video_info_def)

text \<open>
  Claim C4. The claim asks both fetchers to log and return \<open>None\<close> for every error
  category of the library. \<open>get_video_info\<close> does not: when \<open>extract_info\<close> raises a
  \<open>YoutubeDLError\<close> that is neither a \<open>DownloadError\<close> nor an \<open>ExtractorError\<close>,
  the error reaches the caller and nothing is logged, while \<open>get_playlist_info\<close> logs
  the same error and returns \<open>None\<close>.
\<close>

theorem get_video_info_propagates_library_error:
  "isinstance (Exc YoutubeDLError (str ''Test error'')) YoutubeDLError \<and>
   get_video_info (\<lambda>opts url download. Raises (Exc YoutubeDLError (str ''Test error'')))
      (str ''https://www.youtube.com/watch?v=dQw4w9WgXcQ'') =
     ([], Inl (Exc YoutubeDLError (str ''Test error'')))
   \<and>
   get_playlist_info (\<lambda>opts url download. Raises (Exc YoutubeDLError (str ''Test error'')))
      (str ''https://www.youtube.com/playlist?list=abc123'') =
     ([Log ERROR (str ''A YouTube-DL error occurred: %s'') [PStr (str ''Test error'')]], Inr None)"
  by (simp add: get_video_info_def get_playlist_info_def)

end
